theory Spec2Isabelle
  imports Main
begin

section \<open>Python values and string operations\<close>

text \<open>
  The values that YAML configuration and JSON output carry: \<^verbatim>\<open>None\<close>, booleans,
  integers, strings, lists and dictionaries (an association list, looked up by
  \<^const>\<open>map_of\<close>). Floating-point numbers are left out of the model.
\<close>

datatype pyval =
    PNone
  | PBool bool
  | PInt int
  | PStr string
  | PList "pyval list"
  | PDict "(string \<times> pyval) list"

text \<open>Python truthiness, as \<^verbatim>\<open>if x\<close> and \<^verbatim>\<open>not x\<close> test it.\<close>

fun truthy :: "pyval \<Rightarrow> bool" where
  "truthy PNone = False"
| "truthy (PBool b) = b"
| "truthy (PInt n) = (n \<noteq> 0)"
| "truthy (PStr s) = (s \<noteq> [])"
| "truthy (PList xs) = (xs \<noteq> [])"
| "truthy (PDict kvs) = (kvs \<noteq> [])"

text \<open>\<^verbatim>\<open>d.get(k, default)\<close> on a dictionary.\<close>

definition dict_get :: "(string \<times> pyval) list \<Rightarrow> string \<Rightarrow> pyval \<Rightarrow> pyval" where
  "dict_get d k dflt = (case map_of d k of None \<Rightarrow> dflt | Some v \<Rightarrow> v)"

text \<open>\<^verbatim>\<open>s.startswith(p)\<close>, \<^verbatim>\<open>s.endswith(p)\<close> and the substring test \<^verbatim>\<open>p in s\<close>.\<close>

definition startswith :: "string \<Rightarrow> string \<Rightarrow> bool" where
  "startswith s p = (take (length p) s = p)"

definition endswith :: "string \<Rightarrow> string \<Rightarrow> bool" where
  "endswith s p = (length p \<le> length s \<and> drop (length s - length p) s = p)"

fun contains :: "string \<Rightarrow> string \<Rightarrow> bool" where
  "contains p [] = (p = [])"
| "contains p (c # cs) = (startswith (c # cs) p \<or> contains p cs)"

text \<open>
  \<^verbatim>\<open>s.strip()\<close>: the ASCII characters for which \<^verbatim>\<open>str.isspace\<close> holds are removed from
  both ends.
\<close>

definition is_space :: "char \<Rightarrow> bool" where
  "is_space c = (of_char c \<in> {9, 10, 11, 12, 13, 28, 29, 30, 31, 32 :: nat})"

definition strip :: "string \<Rightarrow> string" where
  "strip s = rev (dropWhile is_space (rev (dropWhile is_space s)))"

text \<open>\<^verbatim>\<open>s.lower()\<close> on ASCII letters.\<close>

definition lower_char :: "char \<Rightarrow> char" where
  "lower_char c =
     (let n = (of_char c :: nat) in if 65 \<le> n \<and> n \<le> 90 then char_of (n + 32) else c)"

definition lower :: "string \<Rightarrow> string" where
  "lower s = map lower_char s"

text \<open>
  \<^verbatim>\<open>s.split(c, 1)\<close>: at most one split, at the first occurrence of the separator.
\<close>

definition split1 :: "char \<Rightarrow> string \<Rightarrow> string list" where
  "split1 c s =
     (case dropWhile (\<lambda>x. x \<noteq> c) s of
        [] \<Rightarrow> [s]
      | _ # rest \<Rightarrow> [takeWhile (\<lambda>x. x \<noteq> c) s, rest])"

section \<open>Exceptions, the file system and subprocesses\<close>

text \<open>
  Every exception of the source that derives from \<^verbatim>\<open>Exception\<close> is a value: its class and
  its message (what \<^verbatim>\<open>str(e)\<close> renders).
\<close>

datatype exn_kind =
    FileNotFoundError
  | TimeoutExpired
  | AttributeError
  | TypeError
  | ValueError
  | JSONDecodeError
  | EOFError
  | OSError
  | OtherException

datatype exn = Exn exn_kind string

fun exn_msg :: "exn \<Rightarrow> string" where
  "exn_msg (Exn k m) = m"

type_synonym path = string

text \<open>
  \<^verbatim>\<open>base / rel\<close> of \<^verbatim>\<open>pathlib\<close> on the text of the paths: an absolute right operand
  replaces the left one.
\<close>

definition pjoin :: "path \<Rightarrow> string \<Rightarrow> path" where
  "pjoin base rel = (if startswith rel ''/'' then rel else base @ ''/'' @ rel)"

text \<open>
  What the program sees of the machine: which paths exist (\<^verbatim>\<open>Path.exists\<close> answers, or
  raises the \<^verbatim>\<open>OSError\<close> of a path that cannot be examined), the text of the regular
  files, whether opening a path for writing succeeds, the process environment, and the
  state \<open>ext\<close> that only the external tools read and change (cloud resources, remote
  backends).
\<close>

record 'x sys =
  path_exists :: "path \<Rightarrow> exn + bool"
  file_text :: "path \<rightharpoonup> string"
  can_open_w :: "path \<Rightarrow> bool"
  environ :: "string \<rightharpoonup> string"
  ext :: 'x

text \<open>One \<^verbatim>\<open>subprocess.run\<close> invocation, and the \<^verbatim>\<open>CompletedProcess\<close> it returns.\<close>

record invocation =
  command :: "string list"
  cwd :: path
  extra_env :: "(string \<times> string) list"
  timeout :: nat
  capture_output :: bool

record completed =
  returncode :: int
  stdout :: string
  stderr :: string

datatype level = DEBUG | INFO | WARNING | ERROR

text \<open>
  The state threaded through the program: the machine, the lines the operator will
  type, the trace of provisioning-tool invocations, the log, and the configuration
  cached by the manager's \<^verbatim>\<open>ConfigLoader\<close>.
\<close>

record 'x state =
  sys :: "'x sys"
  stdin :: "string list"
  calls :: "invocation list"
  logs :: "(level \<times> string) list"
  challenges_config :: pyval

definition log :: "level \<Rightarrow> string \<Rightarrow> 'x state \<Rightarrow> 'x state" where
  "log lv msg st = st\<lparr>logs := logs st @ [(lv, msg)]\<rparr>"

text \<open>
  The collaborators the core calls and the specification treats as external: the
  subprocess runner (the provisioning tool itself), the YAML loader of
  \<^verbatim>\<open>ConfigLoader.load_challenges_config\<close>, the two entry points of
  \<^verbatim>\<open>CredentialManager\<close>, \<^verbatim>\<open>json.loads\<close>, and Python's \<^verbatim>\<open>str\<close> on lists and
  dictionaries. A subprocess may raise (time-out, missing binary) and may change the
  machine.
\<close>

record 'x collab =
  subprocess_run :: "invocation \<Rightarrow> 'x sys \<Rightarrow> (exn + completed) \<times> 'x sys"
  load_challenges_config :: "'x sys \<Rightarrow> exn + pyval"
  get_provider_credentials :: "'x sys \<Rightarrow> pyval \<Rightarrow> exn + (string \<times> pyval) list"
  setup_environment_variables :: "'x sys \<Rightarrow> pyval \<Rightarrow> pyval \<Rightarrow> exn + (string \<times> string) list"
  json_loads :: "string \<Rightarrow> exn + pyval"
  str_compound :: "pyval \<Rightarrow> string"

text \<open>Running a subprocess records the invocation in the trace.\<close>

definition run_subprocess ::
  "'x collab \<Rightarrow> invocation \<Rightarrow> 'x state \<Rightarrow> (exn + completed) \<times> 'x state" where
  "run_subprocess K call st =
     (let (r, s') = subprocess_run K call (sys st)
      in (r, st\<lparr>sys := s', calls := calls st @ [call]\<rparr>))"

section \<open>The challenge descriptor\<close>

datatype ChallengeStatus =
    NOT_DEPLOYED
  | DEPLOYING
  | DEPLOYED
  | DESTROYING
  | FAILED
  | UNKNOWN

record challenge =
  name :: string
  config :: "(string \<times> pyval) list"
  base_path :: path
  provider :: pyval
  difficulty :: pyval
  description :: pyval
  directory :: pyval
  backend_config :: pyval
  web_content :: pyval
  variables :: pyval
  outputs :: pyval
  tags :: pyval
  full_directory_path :: "path option"
  full_backend_config_path :: "path option"
  full_web_content_path :: "path option"

text \<open>
  \<^verbatim>\<open>self.base_path / rel if rel else None\<close>: joining a truthy value that is not a
  string raises \<^verbatim>\<open>TypeError\<close>.
\<close>

definition full_path :: "path \<Rightarrow> pyval \<Rightarrow> exn + path option" where
  "full_path base rel =
     (if truthy rel
      then (case rel of
              PStr s \<Rightarrow> Inr (Some (pjoin base s))
            | _ \<Rightarrow> Inl (Exn TypeError ''unsupported operand type(s) for /''))
      else Inr None)"

text \<open>
  \<^verbatim>\<open>Challenge.__init__\<close>: the fields are read with \<^verbatim>\<open>config.get\<close>, which raises
  \<^verbatim>\<open>AttributeError\<close> on a configuration entry that is not a dictionary.
\<close>

definition Challenge :: "string \<Rightarrow> pyval \<Rightarrow> path \<Rightarrow> exn + challenge" where
  "Challenge nm cfg base =
     (case cfg of
        PDict d \<Rightarrow>
          (case full_path base (dict_get d ''directory'' PNone) of
             Inl e \<Rightarrow> Inl e
           | Inr fd \<Rightarrow>
          (case full_path base (dict_get d ''backend_config'' PNone) of
             Inl e \<Rightarrow> Inl e
           | Inr fb \<Rightarrow>
          (case full_path base (dict_get d ''web_content'' PNone) of
             Inl e \<Rightarrow> Inl e
           | Inr fw \<Rightarrow>
             Inr \<lparr>name = nm, config = d, base_path = base,
                  provider = dict_get d ''provider'' PNone,
                  difficulty = dict_get d ''difficulty'' PNone,
                  description = dict_get d ''description'' (PStr []),
                  directory = dict_get d ''directory'' PNone,
                  backend_config = dict_get d ''backend_config'' PNone,
                  web_content = dict_get d ''web_content'' PNone,
                  variables = dict_get d ''variables'' (PDict []),
                  outputs = dict_get d ''outputs'' (PList []),
                  tags = dict_get d ''tags'' (PList []),
                  full_directory_path = fd,
                  full_backend_config_path = fb,
                  full_web_content_path = fw\<rparr>)))
      | _ \<Rightarrow> Inl (Exn AttributeError ''object has no attribute get''))"

section \<open>The state prober\<close>

text \<open>
  \<^verbatim>\<open>Challenge.get_status_from_terraform_state\<close>. The check of the \<^verbatim>\<open>.terraform\<close>
  directory stands before the \<^verbatim>\<open>try\<close> block, so an error of the check itself reaches the
  caller. Every exception of the subprocess call (time-out, missing binary, any other)
  is caught and gives \<open>UNKNOWN\<close>, with a warning of its own.
\<close>

definition state_list_invocation :: "path \<Rightarrow> invocation" where
  "state_list_invocation d =
     \<lparr>command = [''terraform'', ''state'', ''list''], cwd = d, extra_env = [],
      timeout = 30, capture_output = True\<rparr>"

definition probe_warning :: "exn \<Rightarrow> string" where
  "probe_warning e =
     (case e of
        Exn TimeoutExpired m \<Rightarrow> ''Terraform state list command timed out''
      | Exn FileNotFoundError m \<Rightarrow> ''Terraform command not found''
      | Exn k m \<Rightarrow> ''Error checking Terraform state: '' @ m)"

definition get_status_from_terraform_state ::
  "'x collab \<Rightarrow> challenge \<Rightarrow> 'x state \<Rightarrow> (exn + ChallengeStatus) \<times> 'x state" where
  "get_status_from_terraform_state K ch st =
     (case full_directory_path ch of
        None \<Rightarrow> (Inr UNKNOWN, st)
      | Some d \<Rightarrow>
          (case path_exists (sys st) (pjoin d ''.terraform'') of
             Inl e \<Rightarrow> (Inl e, st)
           | Inr False \<Rightarrow> (Inr NOT_DEPLOYED, st)
           | Inr True \<Rightarrow>
               (case run_subprocess K (state_list_invocation d) st of
                  (Inr result, st1) \<Rightarrow>
                    if returncode result = 0 then
                      (if strip (stdout result) \<noteq> [] then (Inr DEPLOYED, st1)
                       else (Inr NOT_DEPLOYED, st1))
                    else if contains ''No state file was found'' (stderr result)
                          \<or> contains ''Failed to load state'' (stderr result)
                    then (Inr NOT_DEPLOYED, st1)
                    else (Inr UNKNOWN,
                          log WARNING (''Terraform state list failed: '' @ stderr result) st1)
                | (Inl e, st1) \<Rightarrow> (Inr UNKNOWN, log WARNING (probe_warning e) st1))))"

section \<open>Rendering values as text\<close>

text \<open>Decimal numerals, as \<^verbatim>\<open>str\<close> and f-strings render integers.\<close>

fun show_nat :: "nat \<Rightarrow> string" where
  "show_nat n =
     (if n < 10 then [char_of (48 + n)]
      else show_nat (n div 10) @ [char_of (48 + n mod 10)])"

declare show_nat.simps [simp del]

definition show_int :: "int \<Rightarrow> string" where
  "show_int i = (if i < 0 then ''-'' @ show_nat (nat (- i)) else show_nat (nat i))"

text \<open>\<^verbatim>\<open>str(v)\<close>: a string is its own text.\<close>

definition py_str :: "'x collab \<Rightarrow> pyval \<Rightarrow> string" where
  "py_str K v =
     (case v of
        PStr s \<Rightarrow> s
      | PNone \<Rightarrow> ''None''
      | PBool b \<Rightarrow> (if b then ''True'' else ''False'')
      | PInt i \<Rightarrow> show_int i
      | _ \<Rightarrow> str_compound K v)"

text \<open>\<^verbatim>\<open>sep.join(xs)\<close>.\<close>

fun join :: "string \<Rightarrow> string list \<Rightarrow> string" where
  "join sep [] = []"
| "join sep [x] = x"
| "join sep (x # y # ys) = x @ sep @ join sep (y # ys)"

section \<open>Running the provisioning tool\<close>

text \<open>
  \<^verbatim>\<open>TerraformManager._run_terraform_command\<close>. An apply or destroy without
  \<^verbatim>\<open>-auto-approve\<close> runs on the terminal, with no output captured. A time-out and any
  other exception are caught and reported as failure. The relay of the tool's output by
  \<^verbatim>\<open>TerraformLogFilter\<close>, with its timings, is not part of the log kept here.
\<close>

definition run_failed ::
  "string list \<Rightarrow> nat \<Rightarrow> exn \<Rightarrow> 'x state \<Rightarrow> (bool \<times> string \<times> string) \<times> 'x state" where
  "run_failed cmd tmo e st =
     (case e of
        Exn TimeoutExpired m \<Rightarrow>
          ((False, [], ''Command timed out after '' @ show_nat tmo @ ''s''),
           log ERROR (''Terraform command timed out after '' @ show_nat tmo @ ''s: ''
                      @ join '' '' cmd) st)
      | Exn k m \<Rightarrow>
          ((False, [], m), log ERROR (''Error executing terraform command: '' @ m) st))"

definition run_terraform_command ::
  "'x collab \<Rightarrow> string list \<Rightarrow> path \<Rightarrow> (string \<times> string) list \<Rightarrow> nat \<Rightarrow> 'x state
     \<Rightarrow> (bool \<times> string \<times> string) \<times> 'x state" where
  "run_terraform_command K cmd wd env_vars tmo st =
     (if (''apply'' \<in> set cmd \<or> ''destroy'' \<in> set cmd) \<and> ''-auto-approve'' \<notin> set cmd
      then
        (case run_subprocess K
                \<lparr>command = cmd, cwd = wd, extra_env = env_vars, timeout = tmo,
                 capture_output = False\<rparr> st of
           (Inr result, st1) \<Rightarrow> ((returncode result = 0, [], []), st1)
         | (Inl e, st1) \<Rightarrow> run_failed cmd tmo e st1)
      else
        (case run_subprocess K
                \<lparr>command = cmd, cwd = wd, extra_env = env_vars, timeout = tmo,
                 capture_output = True\<rparr> st of
           (Inr result, st1) \<Rightarrow>
             ((returncode result = 0, stdout result, stderr result), st1)
         | (Inl e, st1) \<Rightarrow> run_failed cmd tmo e st1))"

text \<open>
  The dictionary comprehension of \<^verbatim>\<open>get_outputs\<close>:
  \<^verbatim>\<open>{k: v.get('value', v) for k, v in outputs.items()}\<close>, which raises on an entry that
  is not a dictionary.
\<close>

fun extract_values :: "(string \<times> pyval) list \<Rightarrow> exn + (string \<times> pyval) list" where
  "extract_values [] = Inr []"
| "extract_values ((k, v) # kvs) =
     (case v of
        PDict d \<Rightarrow>
          (case extract_values kvs of
             Inl e \<Rightarrow> Inl e
           | Inr r \<Rightarrow> Inr ((k, dict_get d ''value'' v) # r))
      | _ \<Rightarrow> Inl (Exn AttributeError ''object has no attribute get''))"

text \<open>
  \<^verbatim>\<open>TerraformManager.get_outputs\<close>. The exceptions of the credential manager and of
  the comprehension are not caught here; a JSON syntax error is.
\<close>

definition get_outputs ::
  "'x collab \<Rightarrow> challenge \<Rightarrow> string \<Rightarrow> 'x state
     \<Rightarrow> (exn + bool \<times> (string \<times> pyval) list) \<times> 'x state" where
  "get_outputs K ch output_format st =
     (case full_directory_path ch of
        None \<Rightarrow>
          (Inr (False, []),
           log ERROR (''Invalid directory path for challenge '' @ name ch) st)
      | Some d \<Rightarrow>
          (case setup_environment_variables K (sys st) (provider ch) (variables ch) of
             Inl e \<Rightarrow> (Inl e, st)
           | Inr env_vars \<Rightarrow>
               (case run_terraform_command K
                       ([''terraform'', ''output'']
                          @ (if output_format = ''json'' then [''-json''] else []))
                       d env_vars 600 st of
                  ((success, out, err), st1) \<Rightarrow>
                    if \<not> success then
                      (Inr (False, []),
                       log ERROR (''Failed to get outputs for '' @ name ch @ '': '' @ err) st1)
                    else if output_format = ''json'' \<and> out \<noteq> [] then
                      (case json_loads K out of
                         Inl (Exn JSONDecodeError m) \<Rightarrow>
                           (Inr (False, []),
                            log ERROR (''Failed to parse JSON outputs: '' @ m) st1)
                       | Inl e \<Rightarrow> (Inl e, st1)
                       | Inr (PDict kvs) \<Rightarrow>
                           (case extract_values kvs of
                              Inl e \<Rightarrow> (Inl e, st1)
                            | Inr vs \<Rightarrow> (Inr (True, vs), st1))
                       | Inr _ \<Rightarrow>
                           (Inl (Exn AttributeError ''object has no attribute items''), st1))
                    else (Inr (True, [(''raw_output'', PStr out)]), st1))))"

section \<open>Configuration lookup\<close>

text \<open>
  \<^verbatim>\<open>self.challenges_config.get('challenges', {}).get(challenge_name)\<close>: raises on a
  document, or a \<^verbatim>\<open>challenges\<close> entry, that is not a dictionary.
\<close>

definition lookup_challenge :: "pyval \<Rightarrow> string \<Rightarrow> exn + pyval" where
  "lookup_challenge doc nm =
     (case doc of
        PDict d \<Rightarrow>
          (case dict_get d ''challenges'' (PDict []) of
             PDict cs \<Rightarrow> Inr (dict_get cs nm PNone)
           | _ \<Rightarrow> Inl (Exn AttributeError ''object has no attribute get''))
      | _ \<Rightarrow> Inl (Exn AttributeError ''object has no attribute get''))"

text \<open>
  \<^verbatim>\<open>ConfigLoader.get_challenge_config\<close>, on a loader whose cached document is
  \<open>cache\<close>: a falsy cache is loaded first. The result comes with the new cache.
\<close>

definition get_challenge_config ::
  "'x collab \<Rightarrow> pyval \<Rightarrow> 'x sys \<Rightarrow> string \<Rightarrow> (exn + pyval) \<times> pyval" where
  "get_challenge_config K cache s nm =
     (if truthy cache then (lookup_challenge cache nm, cache)
      else (case load_challenges_config K s of
              Inl e \<Rightarrow> (Inl e, cache)
            | Inr doc \<Rightarrow> (lookup_challenge doc nm, doc)))"

section \<open>The variable resolution engine\<close>

definition token :: "string \<Rightarrow> string" where
  "token dependency = ''${'' @ dependency @ ''}''"

text \<open>
  The body of the \<^verbatim>\<open>try\<close> block of \<^verbatim>\<open>Challenge._resolve_challenge_dependency\<close>: the
  managers are built afresh (a new loader has an empty cache), the dependency is looked
  up, probed, and its outputs are retrieved.
\<close>

definition resolve_dependency_body ::
  "'x collab \<Rightarrow> challenge \<Rightarrow> string \<Rightarrow> 'x state \<Rightarrow> (exn + string) \<times> 'x state" where
  "resolve_dependency_body K self dependency st =
     (case split1 CHR ''.'' dependency of
        [challenge_name, output_name] \<Rightarrow>
          (case fst (get_challenge_config K PNone (sys st) challenge_name) of
             Inl e \<Rightarrow> (Inl e, st)
           | Inr dependency_config \<Rightarrow>
               if \<not> truthy dependency_config then
                 (Inr (token dependency),
                  log ERROR (''Dependency challenge not found: '' @ challenge_name) st)
               else
                 (case Challenge challenge_name dependency_config (base_path self) of
                    Inl e \<Rightarrow> (Inl e, st)
                  | Inr dependency_challenge \<Rightarrow>
                      (case get_status_from_terraform_state K dependency_challenge st of
                         (Inl e, st1) \<Rightarrow> (Inl e, st1)
                       | (Inr status, st1) \<Rightarrow>
                           if status \<noteq> DEPLOYED then
                             (Inr (token dependency),
                              log ERROR (''Dependency challenge '' @ challenge_name
                                         @ '' is not deployed'') st1)
                           else
                             (case get_outputs K dependency_challenge ''json'' st1 of
                                (Inl e, st2) \<Rightarrow> (Inl e, st2)
                              | (Inr (success, outs), st2) \<Rightarrow>
                                  (case map_of outs output_name of
                                     Some resolved_value \<Rightarrow>
                                       if \<not> success then
                                         (Inr (token dependency),
                                          log ERROR (''Could not get output '' @ output_name
                                                     @ '' from '' @ challenge_name) st2)
                                       else
                                         (Inr (py_str K resolved_value),
                                          log INFO (''Resolved dependency '' @ dependency
                                                    @ '' = '' @ py_str K resolved_value) st2)
                                   | None \<Rightarrow>
                                       (Inr (token dependency),
                                        log ERROR (''Could not get output '' @ output_name
                                                   @ '' from '' @ challenge_name) st2))))))
      | _ \<Rightarrow>
          (Inr (token dependency),
           log WARNING (''Invalid dependency format: '' @ dependency) st))"

text \<open>
  \<^verbatim>\<open>Challenge._resolve_challenge_dependency\<close>: the \<^verbatim>\<open>except Exception\<close> clause turns
  every exception of the body into the unresolved token.
\<close>

definition resolve_challenge_dependency ::
  "'x collab \<Rightarrow> challenge \<Rightarrow> string \<Rightarrow> 'x state \<Rightarrow> string \<times> 'x state" where
  "resolve_challenge_dependency K self dependency st =
     (case resolve_dependency_body K self dependency st of
        (Inr r, st1) \<Rightarrow> (r, st1)
      | (Inl e, st1) \<Rightarrow>
          (token dependency,
           log ERROR (''Error resolving challenge dependency '' @ dependency @ '': ''
                      @ exn_msg e) st1))"

definition var_mapping :: "(string \<times> string) list" where
  "var_mapping =
     [(''AZURE_SUBSCRIPTION_ID'', ''subscription_id''),
      (''AZURE_TENANT_ID'', ''tenant_id''),
      (''AZURE_CLIENT_ID'', ''client_id''),
      (''AZURE_CLIENT_SECRET'', ''client_secret''),
      (''AWS_ACCESS_KEY_ID'', ''access_key_id''),
      (''AWS_SECRET_ACCESS_KEY'', ''secret_access_key''),
      (''GCP_PROJECT_ID'', ''project_id''),
      (''GCP_REGION'', ''region''),
      (''GCP_USER_EMAIL'', ''user_email'')]"

text \<open>
  The fall-back of \<^verbatim>\<open>_resolve_variable_value\<close>: \<^verbatim>\<open>os.getenv(var_name)\<close>, used when it
  is not empty; otherwise a warning, and the original value.
\<close>

definition resolve_from_environment ::
  "string \<Rightarrow> string \<Rightarrow> 'x state \<Rightarrow> pyval \<times> 'x state" where
  "resolve_from_environment v var_name st =
     (case environ (sys st) var_name of
        Some resolved \<Rightarrow>
          if resolved \<noteq> [] then
            (PStr resolved,
             log INFO (''Resolved '' @ var_name @ '' from environment variable'') st)
          else
            (PStr v,
             log WARNING (''Could not resolve variable '' @ var_name
                          @ '', using original value'') st)
      | None \<Rightarrow>
          (PStr v,
           log WARNING (''Could not resolve variable '' @ var_name
                        @ '', using original value'') st))"

text \<open>\<^verbatim>\<open>Challenge._resolve_variable_value\<close>; \<^verbatim>\<open>value[2:-1]\<close> is \<open>butlast (drop 2 v)\<close>.\<close>

definition resolve_variable_value ::
  "'x collab \<Rightarrow> challenge \<Rightarrow> pyval \<Rightarrow> (string \<times> pyval) list \<Rightarrow> 'x state
     \<Rightarrow> pyval \<times> 'x state" where
  "resolve_variable_value K self val provider_creds st =
     (case val of
        PStr v \<Rightarrow>
          if startswith v ''${'' \<and> endswith v ''}'' then
            (let var_name = butlast (drop 2 v) in
             if CHR ''.'' \<in> set var_name then
               (case resolve_challenge_dependency K self var_name st of
                  (r, st1) \<Rightarrow> (PStr r, st1))
             else
               (case map_of var_mapping var_name of
                  Some cred_key \<Rightarrow>
                    (case map_of provider_creds cred_key of
                       Some resolved \<Rightarrow>
                         (resolved,
                          log INFO (''Resolved '' @ var_name
                                    @ '' from provider credentials'') st)
                     | None \<Rightarrow> resolve_from_environment v var_name st)
                | None \<Rightarrow> resolve_from_environment v var_name st))
          else (val, st)
      | _ \<Rightarrow> (val, st))"

text \<open>The wrapper test of the engine: \<^verbatim>\<open>value.startswith('${') and value.endswith('}')\<close>.\<close>

definition is_reference :: "string \<Rightarrow> bool" where
  "is_reference v = (startswith v ''${'' \<and> endswith v ''}'')"

text \<open>
  The first tier of a bare reference: the credential that the fixed name-mapping table
  gives for a token, when the table has the token and the credentials have the field.
\<close>

definition credential_for :: "(string \<times> pyval) list \<Rightarrow> string \<Rightarrow> pyval option" where
  "credential_for provider_creds var_name =
     (case map_of var_mapping var_name of
        None \<Rightarrow> None
      | Some cred_key \<Rightarrow> map_of provider_creds cred_key)"

section \<open>The variables file\<close>

text \<open>
  One assignment of the variables file, by the type of the resolved value: a string in
  double quotes, a boolean as a lower-case word, an integer bare, anything else as its
  \<^verbatim>\<open>str\<close> in double quotes.
\<close>

definition render_assignment :: "'x collab \<Rightarrow> string \<Rightarrow> pyval \<Rightarrow> string" where
  "render_assignment K key resolved =
     (case resolved of
        PStr s \<Rightarrow> key @ '' = '' @ [CHR 0x22] @ s @ [CHR 0x22]
      | PBool b \<Rightarrow> key @ '' = '' @ lower (py_str K (PBool b))
      | PInt i \<Rightarrow> key @ '' = '' @ show_int i
      | _ \<Rightarrow> key @ '' = '' @ [CHR 0x22] @ py_str K resolved @ [CHR 0x22])"

text \<open>The loop over \<^verbatim>\<open>self.variables.items()\<close>, in declaration order.\<close>

fun resolve_all ::
  "'x collab \<Rightarrow> challenge \<Rightarrow> (string \<times> pyval) list \<Rightarrow> (string \<times> pyval) list \<Rightarrow> 'x state
     \<Rightarrow> string list \<times> 'x state" where
  "resolve_all K self [] provider_creds st = ([], st)"
| "resolve_all K self ((key, v) # kvs) provider_creds st =
     (case resolve_variable_value K self v provider_creds st of
        (resolved, st1) \<Rightarrow>
          (case resolve_all K self kvs provider_creds st1 of
             (ls, st2) \<Rightarrow> (render_assignment K key resolved # ls, st2)))"

text \<open>
  \<^verbatim>\<open>Challenge.get_terraform_variables_file_content\<close>: a failure to get the credentials is
  caught (the credentials are then empty); variables that are not a dictionary raise.
\<close>

definition get_terraform_variables_file_content ::
  "'x collab \<Rightarrow> challenge \<Rightarrow> 'x state \<Rightarrow> (exn + string) \<times> 'x state" where
  "get_terraform_variables_file_content K self st =
     (case (case get_provider_credentials K (sys st) (provider self) of
              Inl e \<Rightarrow>
                ([], log WARNING (''Could not get credentials for variable resolution: ''
                                  @ exn_msg e) st)
            | Inr creds \<Rightarrow> (creds, st)) of
        (provider_creds, st0) \<Rightarrow>
          (case variables self of
             PDict kvs \<Rightarrow>
               (case resolve_all K self kvs provider_creds st0 of
                  (ls, st1) \<Rightarrow>
                    (Inr (join [CHR 0x0A]
                            ([''# Auto-generated variables file for CTF Manager'',
                              ''# Challenge: '' @ name self,
                              ''# Provider: '' @ py_str K (provider self),
                              []] @ ls) @ [CHR 0x0A]),
                     st1))
           | _ \<Rightarrow> (Inl (Exn AttributeError ''object has no attribute items''), st0)))"

text \<open>
  \<^verbatim>\<open>Challenge.create_terraform_variables_file\<close>: the file \<^verbatim>\<open>terraform.tfvars\<close> of the
  working directory is opened for writing and receives the content; no other path is
  written.
\<close>

definition write_file :: "path \<Rightarrow> string \<Rightarrow> 'x sys \<Rightarrow> 'x sys" where
  "write_file p content s =
     s\<lparr>file_text := (file_text s)(p \<mapsto> content),
       path_exists := (path_exists s)(p := Inr True)\<rparr>"

definition create_terraform_variables_file ::
  "'x collab \<Rightarrow> challenge \<Rightarrow> 'x state \<Rightarrow> (exn + path) \<times> 'x state" where
  "create_terraform_variables_file K self st =
     (case full_directory_path self of
        None \<Rightarrow> (Inl (Exn ValueError ''Challenge directory not set''), st)
      | Some d \<Rightarrow>
          (case get_terraform_variables_file_content K self st of
             (Inl e, st1) \<Rightarrow> (Inl e, st1)
           | (Inr content, st1) \<Rightarrow>
               if can_open_w (sys st1) (pjoin d ''terraform.tfvars'') then
                 (Inr (pjoin d ''terraform.tfvars''),
                  log DEBUG (''Created terraform.tfvars for '' @ name self @ '': ''
                             @ pjoin d ''terraform.tfvars'')
                    (st1\<lparr>sys := write_file (pjoin d ''terraform.tfvars'') content (sys st1)\<rparr>))
               else
                 (Inl (Exn OSError (pjoin d ''terraform.tfvars'')), st1)))"

section \<open>Plan, apply and destroy\<close>

text \<open>
  The block that opens \<^verbatim>\<open>plan\<close> and \<^verbatim>\<open>apply\<close>: when the variables file is requested it
  is created, and a failure to create it is logged as a warning and otherwise ignored.
  \<^verbatim>\<open>destroy\<close> has no such block.
\<close>

definition create_variables_file_if_requested ::
  "'x collab \<Rightarrow> challenge \<Rightarrow> bool \<Rightarrow> 'x state \<Rightarrow> 'x state" where
  "create_variables_file_if_requested K ch var_file st =
     (if var_file then
        (case create_terraform_variables_file K ch st of
           (Inr p, st1) \<Rightarrow> st1
         | (Inl e, st1) \<Rightarrow>
             log WARNING (''Could not create variables file: '' @ exn_msg e) st1)
      else st)"

text \<open>
  The \<^verbatim>\<open>-var-file\<close> arguments: passed when the file is requested and exists at that
  moment.
\<close>

definition var_file_args :: "path \<Rightarrow> bool \<Rightarrow> 'x sys \<Rightarrow> exn + string list" where
  "var_file_args d var_file s =
     (if var_file then
        (case path_exists s (pjoin d ''terraform.tfvars'') of
           Inl e \<Rightarrow> Inl e
         | Inr b \<Rightarrow> Inr (if b then [''-var-file'', pjoin d ''terraform.tfvars''] else []))
      else Inr [])"



text \<open>\<^verbatim>\<open>TerraformManager.destroy\<close>: the same time-outs; the variables file is not created.\<close>

definition destroy ::
  "'x collab \<Rightarrow> challenge \<Rightarrow> bool \<Rightarrow> bool \<Rightarrow> 'x state \<Rightarrow> (exn + bool) \<times> 'x state" where
  "destroy K ch auto_approve var_file st =
     (case full_directory_path ch of
        None \<Rightarrow>
          (Inr False, log ERROR (''Invalid directory path for challenge '' @ name ch) st)
      | Some d \<Rightarrow>
          (case setup_environment_variables K (sys st) (provider ch) (variables ch) of
             Inl e \<Rightarrow> (Inl e, st)
           | Inr env_vars \<Rightarrow>
               (case var_file_args d var_file (sys st) of
                  Inl e \<Rightarrow> (Inl e, st)
                | Inr vf \<Rightarrow>
                    (case run_terraform_command K
                            ([''terraform'', ''destroy'']
                               @ (if auto_approve then [''-auto-approve''] else []) @ vf)
                            d env_vars
                            (if name ch = ''challenge-04-aws-only'' then 2400 else 1200)
                            st of
                       ((success, out, err), st2) \<Rightarrow>
                         (Inr success,
                          if success then
                            log INFO (''Terraform destroy successful for '' @ name ch) st2
                          else
                            log ERROR (''Error: '' @ err)
                              (log ERROR (''Terraform destroy failed for '' @ name ch)
                                 st2))))))"

section \<open>The manager\<close>

text \<open>
  \<^verbatim>\<open>CTFManager.get_challenge\<close>, on the manager's own loader, whose cache is part of the
  state. What the manager prints is not modelled; an exception raised while a line is
  formatted is.
\<close>

definition get_challenge ::
  "'x collab \<Rightarrow> path \<Rightarrow> string \<Rightarrow> 'x state \<Rightarrow> (exn + challenge option) \<times> 'x state" where
  "get_challenge K base nm st =
     (case get_challenge_config K (challenges_config st) (sys st) nm of
        (r, cache) \<Rightarrow>
          (case r of
             Inl e \<Rightarrow> (Inl e, st\<lparr>challenges_config := cache\<rparr>)
           | Inr cfg \<Rightarrow>
               if \<not> truthy cfg then (Inr None, st\<lparr>challenges_config := cache\<rparr>)
               else
                 (case Challenge nm cfg base of
                    Inl e \<Rightarrow> (Inl e, st\<lparr>challenges_config := cache\<rparr>)
                  | Inr ch \<Rightarrow> (Inr (Some ch), st\<lparr>challenges_config := cache\<rparr>))))"



text \<open>
  \<^verbatim>\<open>CTFManager.destroy_challenge\<close>: a challenge probed as \<open>NOT_DEPLOYED\<close> is reported
  destroyed at once. The line that prints the provider in upper case raises when the
  provider is not a string.
\<close>

definition destroy_challenge ::
  "'x collab \<Rightarrow> path \<Rightarrow> string \<Rightarrow> bool \<Rightarrow> 'x state \<Rightarrow> (exn + bool) \<times> 'x state" where
  "destroy_challenge K base nm auto_approve st =
     (case get_challenge K base nm st of
        (Inl e, st1) \<Rightarrow> (Inl e, st1)
      | (Inr None, st1) \<Rightarrow> (Inr False, log ERROR (''Challenge not found: '' @ nm) st1)
      | (Inr (Some ch), st1) \<Rightarrow>
          (case get_status_from_terraform_state K ch st1 of
             (Inl e, st2) \<Rightarrow> (Inl e, st2)
           | (Inr status, st2) \<Rightarrow>
               if status = NOT_DEPLOYED then (Inr True, st2)
               else
                 (case provider ch of
                    PStr p \<Rightarrow>
                      (case destroy K ch auto_approve True st2 of
                         (Inl e, st3) \<Rightarrow> (Inl e, st3)
                       | (Inr ok, st3) \<Rightarrow>
                           if \<not> ok then (Inr False, log ERROR ''Terraform destroy failed'' st3)
                           else (Inr True, st3))
                  | _ \<Rightarrow> (Inl (Exn AttributeError ''object has no attribute upper''), st2))))"






section \<open>Traces\<close>


section \<open>Fixtures for the examples\<close>

text \<open>
  A machine with a given set of existing paths, an empty environment and every path
  writable; collaborators whose provisioning tool answers by the command line alone and
  leaves the machine as it is; and an initial state with an empty trace and log.
\<close>

definition fixture_sys :: "(path \<Rightarrow> bool) \<Rightarrow> unit sys" where
  "fixture_sys ex =
     \<lparr>path_exists = (\<lambda>p. Inr (ex p)), file_text = Map.empty, can_open_w = (\<lambda>p. True),
      environ = Map.empty, ext = ()\<rparr>"

definition fixture_collab ::
  "(string list \<Rightarrow> exn + completed) \<Rightarrow> pyval \<Rightarrow> unit collab" where
  "fixture_collab tool cfg =
     \<lparr>subprocess_run = (\<lambda>c s. (tool (command c), s)),
      load_challenges_config = (\<lambda>s. Inr cfg),
      get_provider_credentials = (\<lambda>s p. Inr []),
      setup_environment_variables = (\<lambda>s p v. Inr []),
      json_loads = (\<lambda>t. Inl (Exn JSONDecodeError ''Expecting value'')),
      str_compound = (\<lambda>v. ''[]'')\<rparr>"

definition fixture_state :: "(path \<Rightarrow> bool) \<Rightarrow> string list \<Rightarrow> unit state" where
  "fixture_state ex inp =
     \<lparr>sys = fixture_sys ex, stdin = inp, calls = [], logs = [], challenges_config = PNone\<rparr>"

definition fixture_challenge :: "string \<Rightarrow> string \<Rightarrow> (string \<times> pyval) list \<Rightarrow> challenge" where
  "fixture_challenge nm dir vars =
     \<lparr>name = nm,
      config = [(''provider'', PStr ''aws''), (''directory'', PStr dir),
                (''variables'', PDict vars)],
      base_path = ''/ctf'', provider = PStr ''aws'', difficulty = PNone,
      description = PStr [], directory = PStr dir, backend_config = PNone,
      web_content = PNone, variables = PDict vars, outputs = PList [], tags = PList [],
      full_directory_path = Some (pjoin ''/ctf'' dir), full_backend_config_path = None,
      full_web_content_path = None\<rparr>"

definition fixture_env :: "(string \<rightharpoonup> string) \<Rightarrow> unit state" where
  "fixture_env env =
     (fixture_state (\<lambda>p. False) [])\<lparr>sys := (fixture_sys (\<lambda>p. False))\<lparr>environ := env\<rparr>\<rparr>"

text \<open>A registry of two challenges, \<^verbatim>\<open>c1\<close> and \<^verbatim>\<open>c2\<close>, without variables.\<close>

definition fixture_registry :: pyval where
  "fixture_registry =
     PDict [(''challenges'',
             PDict [(''c1'', PDict (config (fixture_challenge ''c1'' ''c1'' []))),
                    (''c2'', PDict (config (fixture_challenge ''c2'' ''c2'' [])))])]"


section \<open>The state prober: properties\<close>

lemma status_unset:
  "full_directory_path ch = None \<Longrightarrow> get_status_from_terraform_state K ch st = (Inr UNKNOWN, st)"
  by (simp add: get_status_from_terraform_state_def)

lemma full_path_falsy: "\<not> truthy rel \<Longrightarrow> full_path base rel = Inr None"
  by (simp add: full_path_def)

lemma Challenge_directory:
  assumes "Challenge nm cfg base = Inr ch"
  shows "full_path base (directory ch) = Inr (full_directory_path ch)"
proof (cases cfg)
  case (PDict d)
  with assms show ?thesis
    by (simp add: Challenge_def split: sum.splits) (erule subst, simp)
qed (use assms in \<open>simp_all add: Challenge_def\<close>)

lemma Challenge_unset:
  assumes "Challenge nm cfg base = Inr ch" and "\<not> truthy (directory ch)"
  shows "full_directory_path ch = None"
  using Challenge_directory[OF assms(1)] full_path_falsy[OF assms(2), of base] by simp

text \<open>
  Claim C10. A descriptor whose \<open>directory\<close> field is unset (absent, \<^verbatim>\<open>None\<close> or
  empty) has no absolute directory path, and the prober answers \<open>UNKNOWN\<close> for it, not
  \<open>NOT_DEPLOYED\<close>: the state comes back as it was, so nothing was run, logged or looked
  up on disk, whatever exists there.
\<close>

theorem unset_directory_unknown:
  assumes "Challenge nm cfg base = Inr ch" and "\<not> truthy (directory ch)"
  shows "get_status_from_terraform_state K ch st = (Inr UNKNOWN, st)"
  using Challenge_unset[OF assms] by (rule status_unset)

theorem unset_directory_unknown_witness:
  "\<exists>ch. Challenge ''c1'' (PDict [(''provider'', PStr ''aws'')]) ''/ctf'' = Inr ch
     \<and> \<not> truthy (directory ch)
     \<and> get_status_from_terraform_state
          (fixture_collab
             (\<lambda>c. Inr \<lparr>returncode = 0, stdout = ''aws_s3_bucket.b'', stderr = []\<rparr>) PNone)
          ch (fixture_state (\<lambda>p. True) [])
        = (Inr UNKNOWN, fixture_state (\<lambda>p. True) [])"
proof -
  obtain ch where c: "Challenge ''c1'' (PDict [(''provider'', PStr ''aws'')]) ''/ctf'' = Inr ch"
    by (simp add: Challenge_def full_path_def dict_get_def)
  have d: "\<not> truthy (directory ch)"
    using c by (auto simp: Challenge_def full_path_def dict_get_def)
  show ?thesis using c d unset_directory_unknown[OF c d] by blast
qed

section \<open>The variable resolution engine: properties\<close>

text \<open>
  Claim C4. A declared value that is not a string, or a string that does not both start
  with \<^verbatim>\<open>${\<close> and end with \<^verbatim>\<open>}\<close>, is returned as it is, and the state is left as it
  was, for any credentials.
\<close>

theorem literal_identity:
  assumes "\<And>v. val = PStr v \<Longrightarrow> \<not> is_reference v"
  shows "resolve_variable_value K self val provider_creds st = (val, st)"
  using assms
  by (cases val) (auto simp: resolve_variable_value_def is_reference_def)

lemma bare_cred:
  assumes "is_reference v" "CHR ''.'' \<notin> set (butlast (drop 2 v))"
    and "credential_for provider_creds (butlast (drop 2 v)) = Some c"
  shows "fst (resolve_variable_value K self (PStr v) provider_creds st) = c"
  using assms
  by (auto simp: resolve_variable_value_def is_reference_def credential_for_def Let_def
           split: option.splits)

lemma bare_env:
  assumes "is_reference v" "CHR ''.'' \<notin> set (butlast (drop 2 v))"
    and "credential_for provider_creds (butlast (drop 2 v)) = None"
  shows "resolve_variable_value K self (PStr v) provider_creds st
         = resolve_from_environment v (butlast (drop 2 v)) st"
  using assms
  by (auto simp: resolve_variable_value_def is_reference_def credential_for_def Let_def
           split: option.splits)

text \<open>
  Claim C3. A bare reference \<^verbatim>\<open>${TOKEN}\<close> (no dot in the token) resolves in three tiers:
  the credential field that the name-mapping table gives for the token, whatever the
  process environment holds; otherwise the environment variable of that name when it is
  set and not empty; otherwise the original string, with one warning logged.
\<close>

theorem bare_reference_tiers:
  assumes "is_reference v" and "CHR ''.'' \<notin> set (butlast (drop 2 v))"
  shows "(credential_for provider_creds (butlast (drop 2 v)) = Some c \<longrightarrow>
            fst (resolve_variable_value K self (PStr v) provider_creds st) = c)
       \<and> (credential_for provider_creds (butlast (drop 2 v)) = None \<longrightarrow>
            environ (sys st) (butlast (drop 2 v)) = Some e \<longrightarrow> e \<noteq> [] \<longrightarrow>
            fst (resolve_variable_value K self (PStr v) provider_creds st) = PStr e)
       \<and> (credential_for provider_creds (butlast (drop 2 v)) = None \<longrightarrow>
            environ (sys st) (butlast (drop 2 v)) \<in> {None, Some []} \<longrightarrow>
            fst (resolve_variable_value K self (PStr v) provider_creds st) = PStr v
            \<and> logs (snd (resolve_variable_value K self (PStr v) provider_creds st))
                = logs st @ [(WARNING, ''Could not resolve variable '' @ butlast (drop 2 v)
                                        @ '', using original value'')]
            \<and> calls (snd (resolve_variable_value K self (PStr v) provider_creds st))
                = calls st
            \<and> sys (snd (resolve_variable_value K self (PStr v) provider_creds st)) = sys st)"
proof (intro conjI impI)
  assume "credential_for provider_creds (butlast (drop 2 v)) = Some c"
  then show "fst (resolve_variable_value K self (PStr v) provider_creds st) = c"
    by (rule bare_cred[OF assms])
next
  assume n: "credential_for provider_creds (butlast (drop 2 v)) = None"
    and e: "environ (sys st) (butlast (drop 2 v)) = Some e" "e \<noteq> []"
  show "fst (resolve_variable_value K self (PStr v) provider_creds st) = PStr e"
    using e by (simp add: bare_env[OF assms n] resolve_from_environment_def)
next
  assume n: "credential_for provider_creds (butlast (drop 2 v)) = None"
    and e: "environ (sys st) (butlast (drop 2 v)) \<in> {None, Some []}"
  have r: "resolve_variable_value K self (PStr v) provider_creds st
          = (PStr v,
             log WARNING (''Could not resolve variable '' @ butlast (drop 2 v)
                          @ '', using original value'') st)"
    using e by (auto simp: bare_env[OF assms n] resolve_from_environment_def)
  show "fst (resolve_variable_value K self (PStr v) provider_creds st) = PStr v"
    by (simp add: r)
  show "logs (snd (resolve_variable_value K self (PStr v) provider_creds st))
          = logs st @ [(WARNING, ''Could not resolve variable '' @ butlast (drop 2 v)
                                  @ '', using original value'')]"
    by (simp add: r log_def)
  show "calls (snd (resolve_variable_value K self (PStr v) provider_creds st)) = calls st"
    by (simp add: r log_def)
  show "sys (snd (resolve_variable_value K self (PStr v) provider_creds st)) = sys st"
    by (simp add: r log_def)
qed

theorem literal_identity_witness:
  "resolve_variable_value (fixture_collab (\<lambda>c. Inl (Exn FileNotFoundError ''terraform'')) PNone)
      (fixture_challenge ''c1'' ''c1'' []) (PInt 8080) [] (fixture_env Map.empty)
     = (PInt 8080, fixture_env Map.empty)
   \<and> \<not> is_reference ''${REGION''
   \<and> resolve_variable_value (fixture_collab (\<lambda>c. Inl (Exn FileNotFoundError ''terraform'')) PNone)
      (fixture_challenge ''c1'' ''c1'' []) (PStr ''${REGION'') [] (fixture_env Map.empty)
     = (PStr ''${REGION'', fixture_env Map.empty)"
proof -
  have n: "\<not> is_reference ''${REGION''"
    by (simp add: is_reference_def startswith_def endswith_def)
  have a: "resolve_variable_value (fixture_collab (\<lambda>c. Inl (Exn FileNotFoundError ''terraform'')) PNone)
      (fixture_challenge ''c1'' ''c1'' []) (PInt 8080) [] (fixture_env Map.empty)
     = (PInt 8080, fixture_env Map.empty)"
    by (rule literal_identity) simp
  have b: "resolve_variable_value (fixture_collab (\<lambda>c. Inl (Exn FileNotFoundError ''terraform'')) PNone)
      (fixture_challenge ''c1'' ''c1'' []) (PStr ''${REGION'') [] (fixture_env Map.empty)
     = (PStr ''${REGION'', fixture_env Map.empty)"
    by (rule literal_identity) (simp add: n)
  from a n b show ?thesis by blast
qed

lemma tok_example: "butlast (drop 2 ''${AWS_ACCESS_KEY_ID}'') = ''AWS_ACCESS_KEY_ID''"
  by simp

theorem bare_reference_tiers_witness:
  "fst (resolve_variable_value (fixture_collab (\<lambda>c. Inl (Exn FileNotFoundError ''terraform'')) PNone)
      (fixture_challenge ''c1'' ''c1'' []) (PStr ''${AWS_ACCESS_KEY_ID}'')
      [(''access_key_id'', PStr ''AKIAFROMCREDS'')]
      (fixture_env [''AWS_ACCESS_KEY_ID'' \<mapsto> ''AKIAFROMENV''])) = PStr ''AKIAFROMCREDS''
   \<and> fst (resolve_variable_value (fixture_collab (\<lambda>c. Inl (Exn FileNotFoundError ''terraform'')) PNone)
      (fixture_challenge ''c1'' ''c1'' []) (PStr ''${AWS_ACCESS_KEY_ID}'')
      [] (fixture_env [''AWS_ACCESS_KEY_ID'' \<mapsto> ''AKIAFROMENV''])) = PStr ''AKIAFROMENV''
   \<and> fst (resolve_variable_value (fixture_collab (\<lambda>c. Inl (Exn FileNotFoundError ''terraform'')) PNone)
      (fixture_challenge ''c1'' ''c1'' []) (PStr ''${AWS_ACCESS_KEY_ID}'')
      [] (fixture_env [''AWS_ACCESS_KEY_ID'' \<mapsto> []])) = PStr ''${AWS_ACCESS_KEY_ID}''
   \<and> logs (snd (resolve_variable_value
                   (fixture_collab (\<lambda>c. Inl (Exn FileNotFoundError ''terraform'')) PNone)
      (fixture_challenge ''c1'' ''c1'' []) (PStr ''${AWS_ACCESS_KEY_ID}'')
      [] (fixture_env [''AWS_ACCESS_KEY_ID'' \<mapsto> []])))
     = [(WARNING, ''Could not resolve variable AWS_ACCESS_KEY_ID, using original value'')]"
proof -
  let ?K = "fixture_collab (\<lambda>c. Inl (Exn FileNotFoundError ''terraform'')) PNone"
  let ?ch = "fixture_challenge ''c1'' ''c1'' []"
  let ?v = "''${AWS_ACCESS_KEY_ID}''"
  have r: "is_reference ?v"
    by (simp add: is_reference_def startswith_def endswith_def)
  have d: "CHR ''.'' \<notin> set (butlast (drop 2 ?v))" by simp
  have c1: "credential_for [(''access_key_id'', PStr ''AKIAFROMCREDS'')] (butlast (drop 2 ?v))
              = Some (PStr ''AKIAFROMCREDS'')"
    by (simp add: credential_for_def var_mapping_def)
  have c2: "credential_for [] (butlast (drop 2 ?v)) = None"
    by (simp add: credential_for_def var_mapping_def)
  have e2: "environ (sys (fixture_env [''AWS_ACCESS_KEY_ID'' \<mapsto> ''AKIAFROMENV'']))
              (butlast (drop 2 ?v)) = Some ''AKIAFROMENV''"
    by (simp add: fixture_env_def fixture_state_def fixture_sys_def)
  have e3: "environ (sys (fixture_env [''AWS_ACCESS_KEY_ID'' \<mapsto> []]))
              (butlast (drop 2 ?v)) \<in> {None, Some []}"
    by (simp add: fixture_env_def fixture_state_def fixture_sys_def)
  have l3: "logs (fixture_env [''AWS_ACCESS_KEY_ID'' \<mapsto> []]) = []"
    by (simp add: fixture_env_def fixture_state_def)
  have a: "fst (resolve_variable_value ?K ?ch (PStr ?v)
                  [(''access_key_id'', PStr ''AKIAFROMCREDS'')]
                  (fixture_env [''AWS_ACCESS_KEY_ID'' \<mapsto> ''AKIAFROMENV''])) = PStr ''AKIAFROMCREDS''"
    using bare_reference_tiers[OF r d, THEN conjunct1] c1 by blast
  have b: "fst (resolve_variable_value ?K ?ch (PStr ?v) []
                  (fixture_env [''AWS_ACCESS_KEY_ID'' \<mapsto> ''AKIAFROMENV''])) = PStr ''AKIAFROMENV''"
    using bare_reference_tiers[OF r d, THEN conjunct2, THEN conjunct1] c2 e2 by blast
  have c: "fst (resolve_variable_value ?K ?ch (PStr ?v) []
                  (fixture_env [''AWS_ACCESS_KEY_ID'' \<mapsto> []])) = PStr ?v
         \<and> logs (snd (resolve_variable_value ?K ?ch (PStr ?v) []
                  (fixture_env [''AWS_ACCESS_KEY_ID'' \<mapsto> []])))
           = logs (fixture_env [''AWS_ACCESS_KEY_ID'' \<mapsto> []])
             @ [(WARNING, ''Could not resolve variable '' @ butlast (drop 2 ?v)
                          @ '', using original value'')]"
    using bare_reference_tiers[OF r d, THEN conjunct2, THEN conjunct2] c2 e3 by blast
  have c': "logs (snd (resolve_variable_value ?K ?ch (PStr ?v) []
                  (fixture_env [''AWS_ACCESS_KEY_ID'' \<mapsto> []])))
     = [(WARNING, ''Could not resolve variable AWS_ACCESS_KEY_ID, using original value'')]"
    using c by (simp add: l3)
  from a b c c' show ?thesis by blast
qed

section \<open>The state prober: classification\<close>







lemma fixture_dir: "full_directory_path (fixture_challenge nm dir vars) = Some (pjoin ''/ctf'' dir)"
  by (simp add: fixture_challenge_def)

lemma fixture_sys_simps:
  "path_exists (fixture_sys ex) p = Inr (ex p)"
  "sys (fixture_state ex inp) = fixture_sys ex"
  "calls (fixture_state ex inp) = []"
  "logs (fixture_state ex inp) = []"
  "stdin (fixture_state ex inp) = inp"
  "subprocess_run (fixture_collab tool cfg) c s = (tool (command c), s)"
  by (simp_all add: fixture_sys_def fixture_state_def fixture_collab_def)



text \<open>
  When the check of the directory itself raises, the error reaches the caller and
  nothing is run.
\<close>

lemma probe_raises:
  assumes "full_directory_path ch = Some d"
    and "path_exists (sys st) (pjoin d ''.terraform'') = Inl e"
  shows "get_status_from_terraform_state K ch st = (Inl e, st)"
  using assms by (simp add: get_status_from_terraform_state_def)

section \<open>Destroying one challenge, and all of them\<close>

lemma get_challenge_frame:
  "calls (snd (get_challenge K base nm st)) = calls st
   \<and> stdin (snd (get_challenge K base nm st)) = stdin st
   \<and> sys (snd (get_challenge K base nm st)) = sys st
   \<and> logs (snd (get_challenge K base nm st)) = logs st"
  by (simp add: get_challenge_def split: prod.splits sum.splits)

lemma probe_trace:
  "calls (snd (get_status_from_terraform_state K ch st)) = calls st
   \<or> (\<exists>d. full_directory_path ch = Some d
          \<and> calls (snd (get_status_from_terraform_state K ch st))
              = calls st @ [\<lparr>command = [''terraform'', ''state'', ''list''], cwd = d,
                              extra_env = [], timeout = 30, capture_output = True\<rparr>])"
  by (simp add: get_status_from_terraform_state_def run_subprocess_def state_list_invocation_def
        log_def split: prod.splits sum.splits option.splits bool.splits)


text \<open>
  Claim C5. When the challenge is configured and its probe answers \<open>NOT_DEPLOYED\<close>,
  \<^verbatim>\<open>destroy_challenge\<close> returns \<^verbatim>\<open>True\<close> in the state the probe left: the trace has grown
  by nothing, or by the one \<^verbatim>\<open>terraform state list\<close> of the probe, and no invocation
  added to it has \<^verbatim>\<open>destroy\<close> on its command line. A second call in a state where the
  probe answers the same is again such a success.
\<close>

theorem destroy_not_deployed_noop:
  assumes "get_challenge K base nm st = (Inr (Some ch), st1)"
    and "get_status_from_terraform_state K ch st1 = (Inr NOT_DEPLOYED, st2)"
  shows "destroy_challenge K base nm auto_approve st = (Inr True, st2)
       \<and> (calls (snd (destroy_challenge K base nm auto_approve st)) = calls st
          \<or> (\<exists>d. full_directory_path ch = Some d
                 \<and> calls (snd (destroy_challenge K base nm auto_approve st))
                     = calls st @ [\<lparr>command = [''terraform'', ''state'', ''list''], cwd = d,
                                     extra_env = [], timeout = 30, capture_output = True\<rparr>]))
       \<and> (\<forall>c \<in> set (drop (length (calls st))
                          (calls (snd (destroy_challenge K base nm auto_approve st)))).
             ''destroy'' \<notin> set (command c))"
proof -
  have r: "destroy_challenge K base nm auto_approve st = (Inr True, st2)"
    using assms by (simp add: destroy_challenge_def)
  have c1: "calls st1 = calls st"
    using get_challenge_frame[of K base nm st] assms(1) by simp
  have t: "calls st2 = calls st
           \<or> (\<exists>d. full_directory_path ch = Some d
                  \<and> calls st2 = calls st @ [\<lparr>command = [''terraform'', ''state'', ''list''],
                        cwd = d, extra_env = [], timeout = 30, capture_output = True\<rparr>])"
    using probe_trace[of K ch st1] assms(2) c1 by simp
  from t have n: "\<forall>c \<in> set (drop (length (calls st)) (calls st2)). ''destroy'' \<notin> set (command c)"
    by auto
  from r t n show ?thesis by simp
qed


lemma Challenge_fixture:
  "dir \<noteq> [] \<Longrightarrow> Challenge nm (PDict (config (fixture_challenge nm dir vars))) ''/ctf''
   = Inr (fixture_challenge nm dir vars)"
  by (simp add: Challenge_def fixture_challenge_def full_path_def dict_get_def)

lemma lookup_fixture:
  "lookup_challenge fixture_registry ''c1'' = Inr (PDict (config (fixture_challenge ''c1'' ''c1'' [])))"
  "lookup_challenge fixture_registry ''c2'' = Inr (PDict (config (fixture_challenge ''c2'' ''c2'' [])))"
  by (simp_all add: lookup_challenge_def fixture_registry_def dict_get_def)

lemma fixture_collab_simps:
  "load_challenges_config (fixture_collab tool cfg) s = Inr cfg"
  "setup_environment_variables (fixture_collab tool cfg) s p v = Inr []"
  "get_provider_credentials (fixture_collab tool cfg) s p = Inr []"
  by (simp_all add: fixture_collab_def)

lemma truthy_config: "config (fixture_challenge nm dir vars) \<noteq> []"
  by (simp add: fixture_challenge_def)

lemma get_challenge_fixture:
  "get_challenge (fixture_collab tool fixture_registry) ''/ctf'' ''c1'' (fixture_state ex inp)
   = (Inr (Some (fixture_challenge ''c1'' ''c1'' [])),
      (fixture_state ex inp)\<lparr>challenges_config := fixture_registry\<rparr>)"
  by (simp add: get_challenge_def get_challenge_config_def fixture_collab_simps lookup_fixture
        truthy_config Challenge_fixture fixture_state_def)

lemma join_c1: "pjoin ''/ctf'' ''c1'' = ''/ctf/c1''" "pjoin ''/ctf'' ''c2'' = ''/ctf/c2''"
  by (simp_all add: pjoin_def startswith_def)

theorem destroy_not_deployed_noop_witness:
  "destroy_challenge
      (fixture_collab (\<lambda>c. Inr \<lparr>returncode = 0, stdout = [], stderr = []\<rparr>) fixture_registry)
      ''/ctf'' ''c1'' True (fixture_state (\<lambda>p. True) [])
     = (Inr True,
        (fixture_state (\<lambda>p. True) [])
          \<lparr>calls := [\<lparr>command = [''terraform'', ''state'', ''list''], cwd = ''/ctf/c1'',
                       extra_env = [], timeout = 30, capture_output = True\<rparr>],
           challenges_config := fixture_registry\<rparr>)"
proof -
  let ?K = "fixture_collab (\<lambda>c. Inr \<lparr>returncode = 0, stdout = [], stderr = []\<rparr>) fixture_registry"
  let ?st1 = "(fixture_state (\<lambda>p. True) [])\<lparr>challenges_config := fixture_registry\<rparr>"
  let ?st2 = "(fixture_state (\<lambda>p. True) [])
          \<lparr>calls := [\<lparr>command = [''terraform'', ''state'', ''list''], cwd = ''/ctf/c1'',
                       extra_env = [], timeout = 30, capture_output = True\<rparr>],
           challenges_config := fixture_registry\<rparr>"
  have p: "get_status_from_terraform_state ?K (fixture_challenge ''c1'' ''c1'' []) ?st1
           = (Inr NOT_DEPLOYED, ?st2)"
    by (simp add: get_status_from_terraform_state_def fixture_dir run_subprocess_def
          state_list_invocation_def fixture_sys_simps fixture_state_def join_c1 strip_def)
  from destroy_not_deployed_noop[OF get_challenge_fixture p, of True]
  show ?thesis by (rule conjunct1)
qed










section \<open>The trace of the lifecycle operations\<close>
































section \<open>The variables file: who writes it\<close>





lemma not_regenerated:
  assumes "full_directory_path ch = Some d"
    and "get_terraform_variables_file_content K ch st = (r, st1)"
    and "(\<exists>e. r = Inl e) \<or> \<not> can_open_w (sys st1) (pjoin d ''terraform.tfvars'')"
  shows "sys (create_variables_file_if_requested K ch True st) = sys st1
       \<and> (\<exists>m. logs (create_variables_file_if_requested K ch True st)
                = logs st1 @ [(WARNING, ''Could not create variables file: '' @ m)])"
  using assms
  by (auto simp: create_variables_file_if_requested_def create_terraform_variables_file_def
        log_def split: sum.splits)













end
